theory Spec2Isabelle
  imports Complex_Main
begin

section \<open>JavaScript values\<close>

text \<open>
  A JavaScript string is modelled as a \<open>string\<close> whose characters are its code units;
  code units above 255 are not represented. The Numbers that \<open>parseInt\<close> and \<open>Math.round\<close>
  return are \<open>NaN\<close>, the two infinities, or a double that holds an integer: \<open>Num\<close> of that
  integer.
\<close>

datatype number = NaN | Num int | PosInfinity | NegInfinity

datatype jsval =
    VUndefined
  | VNull
  | VBool bool
  | VNum number
  | VStr string
  | VArr "jsval list"
  | VObj "(string \<times> jsval) list"

text \<open>The JSON text that \<open>JSON.stringify\<close> writes, as a tree.\<close>

datatype json =
    JNull
  | JBool bool
  | JNum int
  | JStr string
  | JArr "json list"
  | JObj "(string \<times> json) list"

text \<open>
  \<open>JSON.stringify\<close>: a property whose value is \<open>undefined\<close> is left out of its object,
  \<open>undefined\<close> inside an array, \<open>NaN\<close> and the infinities are written as \<open>null\<close>.
\<close>

fun stringify :: "jsval \<Rightarrow> json"
  and stringify_elements :: "jsval list \<Rightarrow> json list"
  and stringify_properties :: "(string \<times> jsval) list \<Rightarrow> (string \<times> json) list" where
  "stringify VUndefined = JNull"
| "stringify VNull = JNull"
| "stringify (VBool b) = JBool b"
| "stringify (VNum NaN) = JNull"
| "stringify (VNum (Num n)) = JNum n"
| "stringify (VNum PosInfinity) = JNull"
| "stringify (VNum NegInfinity) = JNull"
| "stringify (VStr s) = JStr s"
| "stringify (VArr vs) = JArr (stringify_elements vs)"
| "stringify (VObj ps) = JObj (stringify_properties ps)"
| "stringify_elements [] = []"
| "stringify_elements (v # vs) = stringify v # stringify_elements vs"
| "stringify_properties [] = []"
| "stringify_properties ((k, v) # ps) =
     (if v = VUndefined then stringify_properties ps
      else (k, stringify v) # stringify_properties ps)"

section \<open>String primitives\<close>

text \<open>\<open>s.split(sep)\<close> for a separator of one character: the pieces between its occurrences.\<close>

fun split :: "char \<Rightarrow> string \<Rightarrow> string list" where
  "split sep [] = [[]]"
| "split sep (c # cs) =
     (if c = sep then [] # split sep cs
      else (case split sep cs of [] \<Rightarrow> [[c]] | p # ps \<Rightarrow> (c # p) # ps))"

text \<open>\<open>parts.join(sep)\<close>.\<close>

fun join :: "string \<Rightarrow> string list \<Rightarrow> string" where
  "join sep [] = []"
| "join sep [p] = p"
| "join sep (p # q # ps) = p @ sep @ join sep (q # ps)"

text \<open>\<open>parts.slice(1)\<close> and \<open>parts[i]\<close> (\<open>undefined\<close> past the end).\<close>

definition slice1 :: "'a list \<Rightarrow> 'a list" where
  "slice1 parts = drop 1 parts"

definition index :: "'a list \<Rightarrow> nat \<Rightarrow> 'a option" where
  "index parts i = (if i < length parts then Some (parts ! i) else None)"

text \<open>\<open>s.replace(/\.$/, "")\<close>: one dot at the very end of the string is removed.\<close>

definition replace_trailing_dot :: "string \<Rightarrow> string" where
  "replace_trailing_dot s = (if s \<noteq> [] \<and> last s = CHR ''.'' then butlast s else s)"

text \<open>
  \<open>s.replace(/^"|"$/g, "")\<close>: a double quote at the start is removed, then a double
  quote at the end of what is left.
\<close>

definition replace_outer_quotes :: "string \<Rightarrow> string" where
  "replace_outer_quotes s =
     (let s1 = (case s of [] \<Rightarrow> [] | c # cs \<Rightarrow> if c = CHR 0x22 then cs else s)
      in if s1 \<noteq> [] \<and> last s1 = CHR 0x22 then butlast s1 else s1)"

text \<open>White space and line terminators of ECMAScript, among the code units below 256.\<close>

definition is_whitespace :: "char \<Rightarrow> bool" where
  "is_whitespace c = (c \<in> set [CHR 0x09, CHR 0x0A, CHR 0x0B, CHR 0x0C, CHR 0x0D, CHR 0x20, CHR 0xA0])"

definition is_line_terminator :: "char \<Rightarrow> bool" where
  "is_line_terminator c = (c \<in> set [CHR 0x0A, CHR 0x0D])"

definition is_digit :: "char \<Rightarrow> bool" where
  "is_digit c = (c \<in> set ''0123456789'')"

definition digit_value :: "char \<Rightarrow> nat" where
  "digit_value c = of_char c - 48"

definition decimal :: "string \<Rightarrow> nat" where
  "decimal ds = foldl (\<lambda>n c. 10 * n + digit_value c) 0 ds"

text \<open>The number of binary digits of a natural number.\<close>

fun binary_length :: "nat \<Rightarrow> nat" where
  "binary_length n = (if n = 0 then 0 else Suc (binary_length (n div 2)))"

declare binary_length.simps [simp del]

text \<open>
  The double nearest to a natural number, a tie going to the even significand of 53 bits;
  \<open>None\<close> when the rounded value is beyond the largest double, where the Number is
  \<open>Infinity\<close>. Below \<open>2 ^ 53\<close> every natural number is a double.
\<close>

definition to_double :: "nat \<Rightarrow> nat option" where
  "to_double n =
     (if n < 2 ^ 53 then Some n
      else (let e = binary_length n - 53;
                q = n div 2 ^ e;
                r = n mod 2 ^ e;
                q' = (if 2 ^ e < 2 * r \<or> (2 * r = 2 ^ e \<and> odd q) then q + 1 else q);
                d = q' * 2 ^ e
            in if d < 2 ^ 1024 then Some d else None))"

text \<open>
  \<open>parseInt(s, 10)\<close>: leading white space is skipped, then an optional sign, then the
  longest run of decimal digits; \<open>NaN\<close> when that run is empty. What follows the digits
  is ignored. The value of the run is rounded to a double, as V8 does for radix 10.
\<close>

definition parseInt_string :: "string \<Rightarrow> number" where
  "parseInt_string s =
     (let t = dropWhile is_whitespace s;
          (negative, u) = (case t of
                             [] \<Rightarrow> (False, [])
                           | c # cs \<Rightarrow> if c = CHR ''-'' then (True, cs)
                                       else if c = CHR ''+'' then (False, cs) else (False, t));
          ds = takeWhile is_digit u
      in if ds = [] then NaN
         else (case to_double (decimal ds) of
                 None \<Rightarrow> if negative then NegInfinity else PosInfinity
               | Some d \<Rightarrow> Num (if negative then - int d else int d)))"

text \<open>\<open>parseInt(x, 10)\<close> for \<open>x\<close> a string or \<open>undefined\<close>, which reads as the text "undefined".\<close>

definition parseInt :: "string option \<Rightarrow> number" where
  "parseInt x = (case x of None \<Rightarrow> parseInt_string ''undefined'' | Some s \<Rightarrow> parseInt_string s)"

text \<open>\<open>n || 0\<close> on a Number: \<open>NaN\<close> and zero are falsy, every other Number stays.\<close>

definition or_zero :: "number \<Rightarrow> number" where
  "or_zero n = (if n = NaN \<or> n = Num 0 then Num 0 else n)"

text \<open>\<open>x?.replace(/\.$/, "") || ""\<close> for \<open>x\<close> a string or \<open>undefined\<close>.\<close>

definition replace_trailing_dot_or_empty :: "string option \<Rightarrow> string" where
  "replace_trailing_dot_or_empty x =
     (case map_option replace_trailing_dot x of
        None \<Rightarrow> []
      | Some s \<Rightarrow> if s = [] then [] else s)"

text \<open>
  The decimal text of an integer: what a template literal and \<open>toString\<close> write for a
  Number that holds an integer of magnitude below \<open>2 ^ 53\<close>.
\<close>

fun show_nat :: "nat \<Rightarrow> string" where
  "show_nat n =
     (if n < 10 then [''0123456789'' ! n]
      else show_nat (n div 10) @ [''0123456789'' ! (n mod 10)])"

declare show_nat.simps [simp del]

definition show_int :: "int \<Rightarrow> string" where
  "show_int i = (if i < 0 then CHR ''-'' # show_nat (nat (- i)) else show_nat (nat i))"

section \<open>The DoH endpoint: parsing a provider's answer\<close>

record dns_answer =
  ans_name :: string
  ans_type :: int
  ans_TTL :: int
  ans_data :: string

text \<open>
  \<open>Status\<close> is a Number of the JSON body, modelled by its real value; the \<open>type\<close> and
  \<open>TTL\<close> of an answer are only compared, and are integers.
\<close>

record GoogleDnsResponse =
  Status :: real
  AD :: "bool option"
  CD :: "bool option"
  Answer :: "dns_answer list option"
  Authority :: "dns_answer list option"

record DnssecInfo =
  validated :: bool
  enabled :: bool

record DoHResult =
  records :: "jsval list"
  dnssec :: "DnssecInfo option"

text \<open>
  \<open>DNS_TYPE_MAP[type]\<close> for \<open>type\<close> in the \<open>RecordType\<close> union: \<open>undefined\<close> for its four
  members outside the table.
\<close>

definition DNS_TYPE_MAP :: "string \<Rightarrow> int option" where
  "DNS_TYPE_MAP = map_of
     [(''A'', 1), (''AAAA'', 28), (''CNAME'', 5), (''MX'', 15),
      (''NS'', 2), (''TXT'', 16), (''SOA'', 6), (''PTR'', 12)]"

text \<open>The callback of \<open>answers.map\<close> in \<open>parseDoHResponse\<close>: one answer, by record type.\<close>

definition parse_answer :: "string \<Rightarrow> dns_answer \<Rightarrow> jsval" where
  "parse_answer type answer =
     (if type = ''MX'' then
        (let parts = split CHR '' '' (ans_data answer)
         in VObj [(''preference'', VNum (parseInt (index parts 0))),
                  (''exchange'', VStr (replace_trailing_dot (join '' '' (slice1 parts))))])
      else if type = ''SOA'' then
        (let parts = split CHR '' '' (ans_data answer)
         in VObj [(''mname'', VStr (replace_trailing_dot_or_empty (index parts 0))),
                  (''rname'', VStr (replace_trailing_dot_or_empty (index parts 1))),
                  (''serial'', VNum (or_zero (parseInt (index parts 2)))),
                  (''refresh'', VNum (or_zero (parseInt (index parts 3)))),
                  (''retry'', VNum (or_zero (parseInt (index parts 4)))),
                  (''expire'', VNum (or_zero (parseInt (index parts 5)))),
                  (''minimum'', VNum (or_zero (parseInt (index parts 6))))])
      else if type = ''TXT'' then VArr [VStr (replace_outer_quotes (ans_data answer))]
      else if type = ''CNAME'' \<or> type = ''NS'' \<or> type = ''PTR'' then
        VStr (replace_trailing_dot (ans_data answer))
      else VStr (ans_data answer))"

text \<open>
  \<open>typeNum\<close> is \<open>DNS_TYPE_MAP[type]\<close>, so possibly \<open>undefined\<close>; \<open>a.type === typeNum\<close> is
  then false for every answer.
\<close>

definition parseDoHResponse ::
  "GoogleDnsResponse \<Rightarrow> string \<Rightarrow> int option \<Rightarrow> bool \<Rightarrow> DoHResult" where
  "parseDoHResponse data type typeNum dnssecValidate =
     (let dnssec = (if dnssecValidate
                    then Some \<lparr>validated = (AD data = Some True), enabled = True\<rparr>
                    else None)
      in case Answer data of
           None \<Rightarrow> \<lparr>records = [], dnssec = dnssec\<rparr>
         | Some answer \<Rightarrow>
             (let answers = filter (\<lambda>a. Some (ans_type a) = typeNum) answer;
                  records = map (parse_answer type) answers
              in \<lparr>records = records, dnssec = dnssec\<rparr>))"

section \<open>The DoH endpoint: the provider adapters\<close>

text \<open>
  What the handlers take from their surroundings: the answer of \<open>fetch\<close> to a request, the
  answer of \<open>Deno.resolveDns\<close>, the two readings of \<open>performance.now()\<close>, the wording the
  engine gives to the \<open>TypeError\<close> it raises when the named member is read or called on
  \<open>undefined\<close>, and the text the engine writes for a Number.
\<close>

datatype thrown = Error string | NotAnError

record http_response =
  response_ok :: bool
  response_statusText :: string
  response_json :: "thrown + GoogleDnsResponse"

datatype fetched = Rejected thrown | Resolved http_response

record request =
  req_url :: string
  req_params :: "(string \<times> string) list"
  req_headers :: "(string \<times> string) list"

record runtime =
  fetch :: "request \<Rightarrow> fetched"
  resolveDns :: "string \<Rightarrow> string \<Rightarrow> thrown + jsval list"
  startTime :: real
  endTime :: real
  TypeError_message :: "string \<Rightarrow> string"
  Number_text :: "real \<Rightarrow> string"

text \<open>
  The text of a Number in a template literal: the decimal digits of an integer of magnitude
  below \<open>2 ^ 53\<close>; for every other Number (a fraction, or a magnitude from which the
  engine may switch to its shortest digits or to the exponent form) the text is the
  engine's, \<open>Number_text\<close>.
\<close>

definition Number_toString :: "runtime \<Rightarrow> real \<Rightarrow> string" where
  "Number_toString rt x =
     (if x = of_int \<lfloor>x\<rfloor> \<and> \<bar>x\<bar> < 2 ^ 53 then show_int \<lfloor>x\<rfloor> else Number_text rt x)"

definition statusMessages :: "real \<Rightarrow> string option" where
  "statusMessages = map_of
     [(1, ''Format error''), (2, ''Server failure''), (3, ''Non-existent domain''),
      (4, ''Not implemented''), (5, ''Query refused'')]"

text \<open>\<open>statusMessages[data.Status] || `DNS error: ${data.Status}`\<close>.\<close>

definition status_error_message :: "runtime \<Rightarrow> real \<Rightarrow> string" where
  "status_error_message rt st =
     (case statusMessages st of
        None \<Rightarrow> ''DNS error: '' @ Number_toString rt st
      | Some m \<Rightarrow> if m = [] then ''DNS error: '' @ Number_toString rt st else m)"

text \<open>The flag set on the query: \<open>do=true\<close> when validation is asked for, \<open>cd=true\<close> otherwise.\<close>

definition dnssec_param :: "bool \<Rightarrow> string \<times> string" where
  "dnssec_param dnssecValidate = (if dnssecValidate then (''do'', ''true'') else (''cd'', ''true''))"

definition resolveWithGoogleDoH :: "runtime \<Rightarrow> string \<Rightarrow> string \<Rightarrow> bool \<Rightarrow> thrown + DoHResult" where
  "resolveWithGoogleDoH rt domain type dnssecValidate =
     (case DNS_TYPE_MAP type of
        None \<Rightarrow> Inl (Error (TypeError_message rt ''toString''))
      | Some typeNum \<Rightarrow>
          (case fetch rt \<lparr>req_url = ''https://dns.google/resolve'',
                          req_params = [(''name'', domain), (''type'', show_int typeNum),
                                        dnssec_param dnssecValidate],
                          req_headers = []\<rparr> of
             Rejected err \<Rightarrow> Inl err
           | Resolved response \<Rightarrow>
               if \<not> response_ok response
               then Inl (Error (''Google DNS request failed: '' @ response_statusText response))
               else (case response_json response of
                       Inl err \<Rightarrow> Inl err
                     | Inr data \<Rightarrow>
                         if Status data \<noteq> 0 then Inl (Error (status_error_message rt (Status data)))
                         else Inr (parseDoHResponse data type (Some typeNum) dnssecValidate))))"

definition resolveWithCloudflareDoH ::
  "runtime \<Rightarrow> string \<Rightarrow> string \<Rightarrow> bool \<Rightarrow> string \<Rightarrow> thrown + DoHResult" where
  "resolveWithCloudflareDoH rt domain type dnssecValidate endpoint =
     (let typeNum = DNS_TYPE_MAP type
      in case fetch rt \<lparr>req_url = endpoint,
                         req_params = [(''name'', domain), (''type'', type),
                                       dnssec_param dnssecValidate],
                         req_headers = [(''Accept'', ''application/dns-json'')]\<rparr> of
           Rejected err \<Rightarrow> Inl err
         | Resolved response \<Rightarrow>
             if \<not> response_ok response
             then Inl (Error (''Cloudflare DNS request failed: '' @ response_statusText response))
             else (case response_json response of
                     Inl err \<Rightarrow> Inl err
                   | Inr data \<Rightarrow>
                       if Status data \<noteq> 0 then Inl (Error (status_error_message rt (Status data)))
                       else Inr (parseDoHResponse data type typeNum dnssecValidate)))"

text \<open>The adapters as the handler calls them, with three arguments; the endpoint of the
  Cloudflare adapter is then its default.\<close>

definition resolveWithCloudflareDoH_default ::
  "runtime \<Rightarrow> string \<Rightarrow> string \<Rightarrow> bool \<Rightarrow> thrown + DoHResult" where
  "resolveWithCloudflareDoH_default rt domain type dnssecValidate =
     resolveWithCloudflareDoH rt domain type dnssecValidate ''https://cloudflare-dns.com/dns-query''"

definition resolveWithCloudflareSecurityDoH ::
  "runtime \<Rightarrow> string \<Rightarrow> string \<Rightarrow> bool \<Rightarrow> thrown + DoHResult" where
  "resolveWithCloudflareSecurityDoH rt domain type dnssecValidate =
     resolveWithCloudflareDoH rt domain type dnssecValidate
       ''https://security.cloudflare-dns.com/dns-query''"

definition resolveWithCloudflareFamilyDoH ::
  "runtime \<Rightarrow> string \<Rightarrow> string \<Rightarrow> bool \<Rightarrow> thrown + DoHResult" where
  "resolveWithCloudflareFamilyDoH rt domain type dnssecValidate =
     resolveWithCloudflareDoH rt domain type dnssecValidate
       ''https://family.cloudflare-dns.com/dns-query''"

definition resolveWithQuad9DoH ::
  "runtime \<Rightarrow> string \<Rightarrow> string \<Rightarrow> bool \<Rightarrow> thrown + DoHResult" where
  "resolveWithQuad9DoH rt domain type dnssecValidate =
     resolveWithCloudflareDoH rt domain type dnssecValidate ''https://dns.quad9.net/dns-query''"

section \<open>The DoH endpoint: the handler\<close>

record response =
  status :: nat
  body :: json

text \<open>\<open>Response.json(value, {status})\<close>.\<close>

definition Response_json :: "jsval \<Rightarrow> nat \<Rightarrow> response" where
  "Response_json v st = \<lparr>status = st, body = stringify v\<rparr>"

text \<open>The four query parameters as \<open>url.searchParams.get\<close> returns them: \<open>null\<close> is \<open>None\<close>.\<close>

record query =
  q_domain :: "string option"
  q_type :: "string option"
  q_resolver :: "string option"
  q_dnssec :: "string option"

definition validTypes :: "string list" where
  "validTypes = [''A'', ''AAAA'', ''CNAME'', ''MX'', ''NS'', ''TXT'', ''SOA'', ''PTR'']"

text \<open>\<open>Math.round\<close>: the nearest integer, a half going up.\<close>

definition Math_round :: "real \<Rightarrow> int" where
  "Math_round x = \<lfloor>x + 1 / 2\<rfloor>"

text \<open>\<open>err instanceof Error ? err.message : "DNS lookup failed"\<close>.\<close>

definition errorMessage :: "thrown \<Rightarrow> string" where
  "errorMessage err = (case err of Error message \<Rightarrow> message | NotAnError \<Rightarrow> ''DNS lookup failed'')"

text \<open>
  What a function found under a resolver name returns: an adapter returns a \<open>DoHResult\<close>;
  \<open>Other\<close> is a value with neither a \<open>records\<close> nor a \<open>dnssec\<close> property.
\<close>

datatype returned = DoH DoHResult | Other

text \<open>The own properties of the object literal \<open>resolvers\<close>.\<close>

definition resolvers ::
  "runtime \<Rightarrow> (string \<times> (string \<Rightarrow> string \<Rightarrow> bool \<Rightarrow> thrown + DoHResult)) list" where
  "resolvers rt =
     [(''google'', resolveWithGoogleDoH rt),
      (''cloudflare'', resolveWithCloudflareDoH_default rt),
      (''cloudflare-security'', resolveWithCloudflareSecurityDoH rt),
      (''cloudflare-family'', resolveWithCloudflareFamilyDoH rt),
      (''quad9'', resolveWithQuad9DoH rt)]"

text \<open>
  \<open>resolvers\<close> is an object literal, so a property it does not own is looked up in
  \<open>Object.prototype\<close>. These are its function-valued members (ECMAScript 20.1.3, the
  legacy accessor methods included; Deno removes the \<open>__proto__\<close> accessor), each with what it does when the handler
  calls it as \<open>resolveFn(domain, type, dnssec)\<close>, that is with \<open>this\<close> undefined and a string
  as first argument: \<open>Object(domain)\<close> returns a String object, \<open>toString\<close> the text
  "[object Undefined]" and \<open>isPrototypeOf\<close> \<open>false\<close>; the others convert \<open>this\<close> to an object
  and raise a \<open>TypeError\<close>.
\<close>

definition Object_prototype ::
  "runtime \<Rightarrow> (string \<times> (string \<Rightarrow> string \<Rightarrow> bool \<Rightarrow> thrown + returned)) list" where
  "Object_prototype rt =
     [(''constructor'', \<lambda>domain type dnssec. Inr Other),
      (''toString'', \<lambda>domain type dnssec. Inr Other),
      (''isPrototypeOf'', \<lambda>domain type dnssec. Inr Other),
      (''hasOwnProperty'', \<lambda>domain type dnssec. Inl (Error (TypeError_message rt ''hasOwnProperty''))),
      (''propertyIsEnumerable'',
         \<lambda>domain type dnssec. Inl (Error (TypeError_message rt ''propertyIsEnumerable''))),
      (''toLocaleString'', \<lambda>domain type dnssec. Inl (Error (TypeError_message rt ''toLocaleString''))),
      (''valueOf'', \<lambda>domain type dnssec. Inl (Error (TypeError_message rt ''valueOf''))),
      (''__defineGetter__'',
         \<lambda>domain type dnssec. Inl (Error (TypeError_message rt ''__defineGetter__''))),
      (''__defineSetter__'',
         \<lambda>domain type dnssec. Inl (Error (TypeError_message rt ''__defineSetter__''))),
      (''__lookupGetter__'',
         \<lambda>domain type dnssec. Inl (Error (TypeError_message rt ''__lookupGetter__''))),
      (''__lookupSetter__'',
         \<lambda>domain type dnssec. Inl (Error (TypeError_message rt ''__lookupSetter__'')))]"

text \<open>\<open>resolvers[resolver]\<close>: an own property first, then an inherited one, else \<open>undefined\<close>.\<close>

definition resolvers_get ::
  "runtime \<Rightarrow> string \<Rightarrow> (string \<Rightarrow> string \<Rightarrow> bool \<Rightarrow> thrown + returned) option" where
  "resolvers_get rt resolver =
     (case map_of (resolvers rt) resolver of
        Some adapter \<Rightarrow> Some (\<lambda>domain type dnssec. map_sum id DoH (adapter domain type dnssec))
      | None \<Rightarrow> map_of (Object_prototype rt) resolver)"

text \<open>\<open>resolvers[resolver] ?? resolvers.google\<close>.\<close>

definition resolveFn :: "runtime \<Rightarrow> string \<Rightarrow> string \<Rightarrow> string \<Rightarrow> bool \<Rightarrow> thrown + returned" where
  "resolveFn rt resolver =
     (case resolvers_get rt resolver of
        None \<Rightarrow> (\<lambda>domain type dnssec. map_sum id DoH (resolveWithGoogleDoH rt domain type dnssec))
      | Some f \<Rightarrow> f)"

definition DnssecInfo_value :: "DnssecInfo \<Rightarrow> jsval" where
  "DnssecInfo_value d = VObj [(''validated'', VBool (validated d)), (''enabled'', VBool (enabled d))]"

definition bad_request :: "string \<Rightarrow> response" where
  "bad_request message = Response_json (VObj [(''success'', VBool False), (''error'', VStr message)]) 400"

definition server_error :: "thrown \<Rightarrow> response" where
  "server_error err =
     Response_json (VObj [(''success'', VBool False), (''error'', VStr (errorMessage err))]) 500"

text \<open>\<open>url.searchParams.get("resolver") || "system"\<close> and
  \<open>url.searchParams.get("dnssec") === "true"\<close>.\<close>

definition resolver_param :: "query \<Rightarrow> string" where
  "resolver_param q =
     (case q_resolver q of None \<Rightarrow> ''system'' | Some r \<Rightarrow> if r = [] then ''system'' else r)"

definition dnssec_flag :: "query \<Rightarrow> bool" where
  "dnssec_flag q = (q_dnssec q = Some ''true'')"

text \<open>\<open>handler.GET\<close> of the DoH route.\<close>

definition GET_doh :: "runtime \<Rightarrow> query \<Rightarrow> response" where
  "GET_doh rt q =
     (let resolver = resolver_param q;
          dnssecValidate = dnssec_flag q
      in case q_domain q of
           None \<Rightarrow> bad_request ''Domain is required''
         | Some domain \<Rightarrow>
             if domain = [] then bad_request ''Domain is required''
             else (case q_type q of
                     None \<Rightarrow> bad_request ''Record type is required''
                   | Some type \<Rightarrow>
                       if type = [] then bad_request ''Record type is required''
                       else if type \<notin> set validTypes
                       then bad_request (''Invalid record type: '' @ type)
                       else (case resolveFn rt resolver domain type dnssecValidate of
                               Inl err \<Rightarrow> server_error err
                             | Inr ret \<Rightarrow>
                                 (let (records', dnssecInfo) =
                                        (case ret of
                                           DoH r \<Rightarrow> (VArr (records r), dnssec r)
                                         | Other \<Rightarrow> (VUndefined, None));
                                      queryTime = Math_round (endTime rt - startTime rt)
                                  in Response_json
                                       (VObj ([(''success'', VBool True),
                                               (''domain'', VStr domain),
                                               (''recordType'', VStr type),
                                               (''resolver'', VStr resolver),
                                               (''records'', records'),
                                               (''queryTime'', VNum (Num queryTime))] @
                                              (case dnssecInfo of
                                                 None \<Rightarrow> []
                                               | Some d \<Rightarrow> [(''dnssec'', DnssecInfo_value d)])))
                                       200))))"

section \<open>The system-resolver endpoint\<close>

text \<open>\<open>handler.GET\<close> of the system route; it reads neither \<open>resolver\<close> nor \<open>dnssec\<close>.\<close>

definition GET_system :: "runtime \<Rightarrow> query \<Rightarrow> response" where
  "GET_system rt q =
     (case q_domain q of
        None \<Rightarrow> bad_request ''Domain is required''
      | Some domain \<Rightarrow>
          if domain = [] then bad_request ''Domain is required''
          else (case q_type q of
                  None \<Rightarrow> bad_request ''Record type is required''
                | Some type \<Rightarrow>
                    if type = [] then bad_request ''Record type is required''
                    else if type \<notin> set validTypes
                    then bad_request (''Invalid record type: '' @ type)
                    else (case resolveDns rt domain type of
                            Inl err \<Rightarrow> server_error err
                          | Inr records' \<Rightarrow>
                              (let queryTime = Math_round (endTime rt - startTime rt)
                               in Response_json
                                    (VObj [(''success'', VBool True),
                                           (''domain'', VStr domain),
                                           (''recordType'', VStr type),
                                           (''records'', VArr records'),
                                           (''queryTime'', VNum (Num queryTime))])
                                    200))))"

section \<open>The page: the shareable URL fragment\<close>

definition RecordTypes :: "(string \<times> string) list" where
  "RecordTypes =
     [(''A'', ''A - IPv4 Address''), (''AAAA'', ''AAAA - IPv6 Address''),
      (''CNAME'', ''CNAME - Canonical Name''), (''MX'', ''MX - Mail Exchange''),
      (''NS'', ''NS - Name Server''), (''TXT'', ''TXT - Text Record''),
      (''SOA'', ''SOA - Start of Authority''), (''PTR'', ''PTR - Pointer Record'')]"

definition ValidRecordTypes :: "string list" where
  "ValidRecordTypes = map fst RecordTypes"

text \<open>The characters \<open>[A-Z]\<close> matches under the \<open>i\<close> flag: the ASCII letters.\<close>

definition is_letter :: "char \<Rightarrow> bool" where
  "is_letter c = (c \<in> set ''ABCDEFGHIJKLMNOPQRSTUVWXYZabcdefghijklmnopqrstuvwxyz'')"

text \<open>\<open>toUpperCase\<close> on a string of ASCII letters, which is all the first group can hold.\<close>

definition toUpperCase :: "string \<Rightarrow> string" where
  "toUpperCase s =
     map (\<lambda>c. case map_of (zip ''abcdefghijklmnopqrstuvwxyz'' ''ABCDEFGHIJKLMNOPQRSTUVWXYZ'') c of
                None \<Rightarrow> c
              | Some u \<Rightarrow> u) s"

text \<open>The end of the pattern, \<open>\/?\s*$\<close>: an optional slash, then white space to the end.\<close>

definition tail_matches :: "string \<Rightarrow> bool" where
  "tail_matches r =
     (list_all is_whitespace r \<or>
      (case r of [] \<Rightarrow> False | c # cs \<Rightarrow> c = CHR ''/'' \<and> list_all is_whitespace cs))"

text \<open>
  The lazy group \<open>(.+?)\<close> followed by the end of the pattern: the shortest non-empty run of
  characters other than line terminators after which the rest matches. \<open>seen\<close> is what
  the group holds so far.
\<close>

fun lazy_group :: "string \<Rightarrow> string \<Rightarrow> string option" where
  "lazy_group seen [] = (if seen \<noteq> [] then Some seen else None)"
| "lazy_group seen (c # cs) =
     (if seen \<noteq> [] \<and> tail_matches (c # cs) then Some seen
      else if is_line_terminator c then None
      else lazy_group (seen @ [c]) cs)"

text \<open>
  \<open>hash.match(/^#([A-Z]+)\/(.+?)\/?\s*$/i)\<close> and what follows it. The greedy first group
  takes the whole run of letters after the \<open>#\<close>: giving a letter back never helps, since
  the next character of the pattern is a slash.
\<close>

definition parseHash :: "string \<Rightarrow> (string \<times> string) option" where
  "parseHash hash =
     (case hash of
        [] \<Rightarrow> None
      | h # rest \<Rightarrow>
          if h \<noteq> CHR ''#'' then None
          else (let letters = takeWhile is_letter rest;
                    after = dropWhile is_letter rest
                in if letters = [] then None
                   else (case after of
                           [] \<Rightarrow> None
                         | s # rest' \<Rightarrow>
                             if s \<noteq> CHR ''/'' then None
                             else (case lazy_group [] rest' of
                                     None \<Rightarrow> None
                                   | Some group2 \<Rightarrow>
                                       (let type = toUpperCase letters;
                                            domain = group2
                                        in if type \<notin> set ValidRecordTypes then None
                                           else if domain = [] then None
                                           else Some (type, domain))))))"




section \<open>The specification's wording of the MX and SOA rules\<close>

text \<open>
  The specification says "split on whitespace" and "non-numeric numeric fields default to
  0"; these definitions follow its words, to be compared with \<open>parse_answer\<close>. A token is a
  maximal run of characters that are not white space; a token is numeric when it is a
  non-empty run of decimal digits.
\<close>

fun spec_tokens_from :: "string \<Rightarrow> string \<Rightarrow> string list" where
  "spec_tokens_from token [] = (if token = [] then [] else [token])"
| "spec_tokens_from token (c # cs) =
     (if is_whitespace c
      then (if token = [] then spec_tokens_from [] cs else token # spec_tokens_from [] cs)
      else spec_tokens_from (token @ [c]) cs)"

definition spec_tokens :: "string \<Rightarrow> string list" where
  "spec_tokens s = spec_tokens_from [] s"

definition spec_parse_MX :: "string \<Rightarrow> jsval" where
  "spec_parse_MX raw =
     (let tokens = spec_tokens raw
      in VObj [(''preference'', VNum (parseInt (index tokens 0))),
               (''exchange'', VStr (replace_trailing_dot (join '' '' (drop 1 tokens))))])"

definition spec_number :: "string option \<Rightarrow> number" where
  "spec_number token =
     (case token of
        None \<Rightarrow> Num 0
      | Some t \<Rightarrow> if t \<noteq> [] \<and> list_all is_digit t then parseInt_string t else Num 0)"

definition spec_parse_SOA :: "string \<Rightarrow> jsval" where
  "spec_parse_SOA raw =
     (let tokens = spec_tokens raw
      in VObj [(''mname'', VStr (replace_trailing_dot_or_empty (index tokens 0))),
               (''rname'', VStr (replace_trailing_dot_or_empty (index tokens 1))),
               (''serial'', VNum (spec_number (index tokens 2))),
               (''refresh'', VNum (spec_number (index tokens 3))),
               (''retry'', VNum (spec_number (index tokens 4))),
               (''expire'', VNum (spec_number (index tokens 5))),
               (''minimum'', VNum (spec_number (index tokens 6)))])"

section \<open>Facts about the primitives\<close>

lemma split_not_Nil: "split sep s \<noteq> []"
  by (induction s) (auto split: list.splits)

lemma join_split: "join [sep] (split sep s) = s"
proof (induction s)
  case Nil
  show ?case by simp
next
  case (Cons c cs)
  obtain p ps where ps: "split sep cs = p # ps"
    using split_not_Nil [of sep cs] by (cases "split sep cs") auto
  show ?case
  proof (cases "c = sep")
    case True
    with Cons ps show ?thesis by simp
  next
    case False
    with Cons ps show ?thesis by (cases ps) auto
  qed
qed

lemma split_first: "sep \<notin> set first \<Longrightarrow> split sep (first @ sep # rest) = first # split sep rest"
  by (induction first) auto

lemma split_single: "sep \<notin> set s \<Longrightarrow> split sep s = [s]"
  by (induction s) auto

lemma split_space_free: "list_all (\<lambda>p. sep \<notin> set p) (split sep s)"
proof (induction s)
  case Nil
  show ?case by simp
next
  case (Cons c cs)
  then show ?case by (cases "split sep cs") auto
qed

lemma split_join:
  assumes "pieces \<noteq> []" "list_all (\<lambda>p. sep \<notin> set p) pieces"
  shows "split sep (join [sep] pieces) = pieces"
  using assms
proof (induction pieces)
  case Nil
  then show ?case by simp
next
  case (Cons p ps)
  show ?case
  proof (cases ps)
    case Nil
    with Cons.prems show ?thesis by (simp add: split_single)
  next
    case (Cons q qs)
    with Cons.IH Cons.prems have "split sep (join [sep] (q # qs)) = q # qs" by simp
    with Cons Cons.prems show ?thesis by (simp add: split_first)
  qed
qed

lemma digit_not_whitespace: "is_digit c \<Longrightarrow> \<not> is_whitespace c"
  by (auto simp: is_digit_def is_whitespace_def)

lemma digit_not_sign: "is_digit c \<Longrightarrow> c \<noteq> CHR ''-'' \<and> c \<noteq> CHR ''+''"
  by (auto simp: is_digit_def)

lemma to_double_exact: "n < 2 ^ 53 \<Longrightarrow> to_double n = Some n"
  by (simp add: to_double_def)

lemma or_zero_eq: "or_zero n = (if n = NaN then Num 0 else n)"
  by (auto simp: or_zero_def)

lemmas number_evals =
  parseInt_def parseInt_string_def is_whitespace_def is_digit_def decimal_def digit_value_def
  or_zero_def to_double_def

lemma parseInt_undefined: "parseInt None = NaN"
  by (simp add: number_evals)

lemmas string_evals =
  index_def slice1_def replace_trailing_dot_def replace_trailing_dot_or_empty_def
  replace_outer_quotes_def

text \<open>The rounding of \<open>parseInt\<close> past \<open>2 ^ 53\<close>: the odd \<open>2 ^ 53 + 1\<close> is no double.\<close>

lemma parseInt_string_rounds: "parseInt_string ''9007199254740993'' = Num 9007199254740992"
  by (simp add: number_evals binary_length.simps)

text \<open>
  \<open>show_nat\<close> writes the decimal numeral of its argument: digits only, without a leading
  zero, that spell the argument.
\<close>

lemma digit_at:
  assumes "d < 10"
  shows "is_digit (''0123456789'' ! d) \<and> digit_value (''0123456789'' ! d) = d
       \<and> (''0123456789'' ! d = CHR ''0'' \<longrightarrow> d = 0)"
proof -
  from assms have "d \<in> {0, 1, 2, 3, 4, 5, 6, 7, 8, 9}" by auto
  then show ?thesis
    by (auto simp: is_digit_def digit_value_def)
qed

lemma decimal_snoc: "decimal (ds @ [c]) = 10 * decimal ds + digit_value c"
  by (simp add: decimal_def)

lemma show_nat_decimal:
  "show_nat n \<noteq> [] \<and> list_all is_digit (show_nat n) \<and> decimal (show_nat n) = n
   \<and> (hd (show_nat n) = CHR ''0'' \<longrightarrow> n = 0)"
proof (induction n rule: show_nat.induct)
  case (1 n)
  show ?case
  proof (cases "n < 10")
    case True
    with digit_at [of n] show ?thesis
      by (simp add: show_nat.simps [of n] decimal_def)
  next
    case False
    with "1" have ih: "show_nat (n div 10) \<noteq> []" "list_all is_digit (show_nat (n div 10))"
      "decimal (show_nat (n div 10)) = n div 10"
      "hd (show_nat (n div 10)) = CHR ''0'' \<longrightarrow> n div 10 = 0"
      by simp_all
    from False have nz: "n div 10 \<noteq> 0" by simp
    have d: "n mod 10 < 10" by simp
    from False ih nz digit_at [OF d] show ?thesis
      by (simp add: show_nat.simps [of n] decimal_snoc)
  qed
qed

lemma show_int_decimal:
  "\<exists>ds. show_int i = (if i < 0 then ''-'' else []) @ ds \<and> ds \<noteq> [] \<and> list_all is_digit ds
        \<and> int (decimal ds) = \<bar>i\<bar> \<and> (hd ds = CHR ''0'' \<longrightarrow> i = 0)"
proof (cases "i < 0")
  case True
  with show_nat_decimal [of "nat (- i)"] show ?thesis
    by (intro exI [of _ "show_nat (nat (- i))"]) (auto simp: show_int_def)
next
  case False
  with show_nat_decimal [of "nat i"] show ?thesis
    by (intro exI [of _ "show_nat (nat i)"]) (auto simp: show_int_def)
qed

section \<open>Facts about the adapters\<close>

text \<open>
  In what follows the provider answers every request with the same HTTP response \<open>r\<close>,
  which is \<open>ok\<close> and whose body parses to \<open>data\<close>.
\<close>

lemma valid_type_in_map: "type \<in> set validTypes \<Longrightarrow> \<exists>n. DNS_TYPE_MAP type = Some n"
  by (auto simp: validTypes_def DNS_TYPE_MAP_def)

lemma google_result:
  assumes "type \<in> set validTypes" "\<And>req. fetch rt req = Resolved r" "response_ok r"
    "response_json r = Inr data"
  shows "resolveWithGoogleDoH rt domain type dv =
           (if Status data \<noteq> 0 then Inl (Error (status_error_message rt (Status data)))
            else Inr (parseDoHResponse data type (DNS_TYPE_MAP type) dv))"
  using assms valid_type_in_map [OF assms(1)]
  by (auto simp: resolveWithGoogleDoH_def)

lemma cloudflare_result:
  assumes "\<And>req. fetch rt req = Resolved r" "response_ok r" "response_json r = Inr data"
  shows "resolveWithCloudflareDoH rt domain type dv endpoint =
           (if Status data \<noteq> 0 then Inl (Error (status_error_message rt (Status data)))
            else Inr (parseDoHResponse data type (DNS_TYPE_MAP type) dv))"
  using assms by (simp add: resolveWithCloudflareDoH_def)

lemma adapter_result:
  assumes "(name, adapter) \<in> set (resolvers rt)" "type \<in> set validTypes"
    "\<And>req. fetch rt req = Resolved r" "response_ok r" "response_json r = Inr data"
  shows "adapter domain type dv =
           (if Status data \<noteq> 0 then Inl (Error (status_error_message rt (Status data)))
            else Inr (parseDoHResponse data type (DNS_TYPE_MAP type) dv))"
proof -
  note g = google_result [OF assms(2-5)]
  note c = cloudflare_result [OF assms(3-5)]
  from assms(1) show ?thesis
    unfolding resolvers_def
    by (auto simp: g c resolveWithCloudflareDoH_default_def resolveWithCloudflareSecurityDoH_def
          resolveWithCloudflareFamilyDoH_def resolveWithQuad9DoH_def)
qed

lemma google_is_resolver: "(''google'', resolveWithGoogleDoH rt) \<in> set (resolvers rt)"
  by (simp add: resolvers_def)

lemma resolveFn_adapter:
  assumes "map_of (Object_prototype rt) resolver = None"
  shows "\<exists>name adapter. (name, adapter) \<in> set (resolvers rt) \<and>
           resolveFn rt resolver = (\<lambda>domain type dv. map_sum id DoH (adapter domain type dv))"
proof (cases "map_of (resolvers rt) resolver")
  case None
  with assms have "resolveFn rt resolver =
      (\<lambda>domain type dv. map_sum id DoH (resolveWithGoogleDoH rt domain type dv))"
    by (simp add: resolveFn_def resolvers_get_def)
  with google_is_resolver show ?thesis by blast
next
  case (Some adapter)
  then have "(resolver, adapter) \<in> set (resolvers rt)" by (rule map_of_SomeD)
  moreover from Some have "resolveFn rt resolver =
      (\<lambda>domain type dv. map_sum id DoH (adapter domain type dv))"
    by (simp add: resolveFn_def resolvers_get_def)
  ultimately show ?thesis by blast
qed

lemma resolveFn_fallback:
  assumes "map_of (resolvers rt) resolver = None" "map_of (Object_prototype rt) resolver = None"
  shows "resolveFn rt resolver = (\<lambda>domain type dv. map_sum id DoH (resolveWithGoogleDoH rt domain type dv))"
  using assms by (simp add: resolveFn_def resolvers_get_def)

lemma system_falls_back:
  "resolveFn rt ''system'' = (\<lambda>domain type dv. map_sum id DoH (resolveWithGoogleDoH rt domain type dv))"
  by (rule resolveFn_fallback) (simp_all add: resolvers_def Object_prototype_def)

lemma parseDoHResponse_dnssec:
  "dnssec (parseDoHResponse data type typeNum dv) =
     (if dv then Some \<lparr>validated = (AD data = Some True), enabled = True\<rparr> else None)"
  by (simp add: parseDoHResponse_def Let_def split: option.splits)

lemma adapter_returns_parsed:
  assumes "(name, adapter) \<in> set (resolvers rt)" "adapter domain type dv = Inr res"
  shows "\<exists>data typeNum. res = parseDoHResponse data type typeNum dv"
proof -
  have g: "resolveWithGoogleDoH rt domain type dv = Inr res \<Longrightarrow> ?thesis"
    by (auto simp: resolveWithGoogleDoH_def split: option.splits fetched.splits sum.splits if_splits)
  have c: "resolveWithCloudflareDoH rt domain type dv endpoint = Inr res \<Longrightarrow> ?thesis" for endpoint
    by (auto simp: resolveWithCloudflareDoH_def Let_def split: fetched.splits sum.splits if_splits)
  from assms show ?thesis
    unfolding resolvers_def
    by (auto simp: resolveWithCloudflareDoH_default_def resolveWithCloudflareSecurityDoH_def
          resolveWithCloudflareFamilyDoH_def resolveWithQuad9DoH_def intro: g c)
qed

lemma adapter_dnssec:
  assumes "(name, adapter) \<in> set (resolvers rt)" "adapter domain type dv = Inr res"
  shows "(dv \<longrightarrow> (\<exists>v. dnssec res = Some \<lparr>validated = v, enabled = True\<rparr>)) \<and> (\<not> dv \<longrightarrow> dnssec res = None)"
  using adapter_returns_parsed [OF assms] by (auto simp: parseDoHResponse_dnssec)

lemma resolveFn_DoH:
  assumes "resolveFn rt resolver domain type dv = Inr (DoH res)"
  shows "\<exists>name adapter. (name, adapter) \<in> set (resolvers rt) \<and> adapter domain type dv = Inr res"
proof (cases "map_of (resolvers rt) resolver")
  case (Some adapter)
  then have m: "(resolver, adapter) \<in> set (resolvers rt)" by (rule map_of_SomeD)
  from Some assms have "map_sum id DoH (adapter domain type dv) = Inr (DoH res)"
    by (simp add: resolveFn_def resolvers_get_def)
  then have "adapter domain type dv = Inr res"
    by (cases "adapter domain type dv") auto
  with m show ?thesis by blast
next
  case None
  show ?thesis
  proof (cases "map_of (Object_prototype rt) resolver")
    case (Some f)
    then have "(resolver, f) \<in> set (Object_prototype rt)" by (rule map_of_SomeD)
    then have "f domain type dv \<noteq> Inr (DoH res)"
      unfolding Object_prototype_def by auto
    with None Some assms show ?thesis
      by (simp add: resolveFn_def resolvers_get_def)
  next
    case n: None
    with None assms have "map_sum id DoH (resolveWithGoogleDoH rt domain type dv) = Inr (DoH res)"
      by (simp add: resolveFn_def resolvers_get_def)
    then have "resolveWithGoogleDoH rt domain type dv = Inr res"
      by (cases "resolveWithGoogleDoH rt domain type dv") auto
    with google_is_resolver show ?thesis by blast
  qed
qed

section \<open>An answer without records\<close>

text \<open>
  C1, as the code has it. When the provider's response has \<open>Status = 0\<close> and no \<open>Answer\<close>
  field, each of the five resolve functions returns no records; the DNSSEC info is absent
  when validation was not asked for, and otherwise has \<open>enabled = true\<close> and \<open>validated\<close>
  equal to \<open>AD === true\<close>: false when the \<open>AD\<close> flag is absent or false, true when it is
  true.
\<close>

theorem no_answer_result:
  assumes "(name, adapter) \<in> set (resolvers rt)" "type \<in> set validTypes"
    "\<And>req. fetch rt req = Resolved r" "response_ok r" "response_json r = Inr data"
    "Status data = 0" "Answer data = None"
  shows "adapter domain type dnssecValidate =
           Inr \<lparr>records = [],
                dnssec = (if dnssecValidate
                          then Some \<lparr>validated = (AD data = Some True), enabled = True\<rparr>
                          else None)\<rparr>"
  using adapter_result [OF assms(1-5)] assms(6,7)
  by (simp add: parseDoHResponse_def)

text \<open>
  A response without the \<open>AD\<close> flag, through the Quad9 adapter.
\<close>

theorem no_answer_result_witness:
  "resolveWithQuad9DoH
     \<lparr>fetch = (\<lambda>req. Resolved
        \<lparr>response_ok = True, response_statusText = ''OK'',
         response_json = Inr \<lparr>Status = 0, AD = None, CD = None, Answer = None, Authority = None\<rparr>\<rparr>),
      resolveDns = (\<lambda>domain type. Inr []), startTime = 0, endTime = 1,
      TypeError_message = (\<lambda>member. []),
      Number_text = (\<lambda>x. [])\<rparr>
     ''example.com'' ''AAAA'' True =
   Inr \<lparr>records = [], dnssec = Some \<lparr>validated = False, enabled = True\<rparr>\<rparr>"
  using no_answer_result [where name = "''quad9''" and type = "''AAAA''" and dnssecValidate = True
      and domain = "''example.com''"
      and data = "\<lparr>Status = 0, AD = None, CD = None, Answer = None, Authority = None\<rparr>"
      and r = "\<lparr>response_ok = True, response_statusText = ''OK'',
         response_json = Inr \<lparr>Status = 0, AD = None, CD = None, Answer = None, Authority = None\<rparr>\<rparr>"
      and rt = "\<lparr>fetch = (\<lambda>req. Resolved
        \<lparr>response_ok = True, response_statusText = ''OK'',
         response_json = Inr \<lparr>Status = 0, AD = None, CD = None, Answer = None, Authority = None\<rparr>\<rparr>),
      resolveDns = (\<lambda>domain type. Inr []), startTime = 0, endTime = 1,
      TypeError_message = (\<lambda>member. []),
      Number_text = (\<lambda>x. [])\<rparr>"
      and adapter = "resolveWithQuad9DoH \<lparr>fetch = (\<lambda>req. Resolved
        \<lparr>response_ok = True, response_statusText = ''OK'',
         response_json = Inr \<lparr>Status = 0, AD = None, CD = None, Answer = None, Authority = None\<rparr>\<rparr>),
      resolveDns = (\<lambda>domain type. Inr []), startTime = 0, endTime = 1,
      TypeError_message = (\<lambda>member. []),
      Number_text = (\<lambda>x. [])\<rparr>"]
  by (simp add: resolvers_def validTypes_def)

text \<open>
  C1 as the specification words it, with \<open>validated = false\<close> for every such response,
  fails when the provider has authenticated the empty answer (\<open>AD = true\<close>).
\<close>

theorem no_answer_validated_counterexample:
  "parseDoHResponse \<lparr>Status = 0, AD = Some True, CD = None, Answer = None, Authority = None\<rparr>
     ''AAAA'' (Some 28) True =
   \<lparr>records = [], dnssec = Some \<lparr>validated = True, enabled = True\<rparr>\<rparr>"
  by (simp add: parseDoHResponse_def)

section \<open>Facts about the handlers\<close>

lemma Number_toString_integer:
  assumes "\<bar>code\<bar> < 2 ^ 53"
  shows "Number_toString rt (of_int code) = show_int code"
proof -
  have "\<bar>(of_int code :: real)\<bar> < 2 ^ 53"
    using assms by (simp flip: of_int_abs)
  then show ?thesis by (simp add: Number_toString_def)
qed

lemma status_error_message_table:
  "status_error_message rt st =
     (if st = 1 then ''Format error'' else if st = 2 then ''Server failure''
      else if st = 3 then ''Non-existent domain'' else if st = 4 then ''Not implemented''
      else if st = 5 then ''Query refused'' else ''DNS error: '' @ Number_toString rt st)"
  by (simp add: status_error_message_def statusMessages_def)

lemma valid_type_not_empty: "type \<in> set validTypes \<Longrightarrow> type \<noteq> []"
  by (auto simp: validTypes_def)

lemma bad_request_eq:
  "bad_request message =
     \<lparr>status = 400, body = JObj [(''success'', JBool False), (''error'', JStr message)]\<rparr>"
  by (simp add: bad_request_def Response_json_def)

lemma server_error_eq:
  "server_error err =
     \<lparr>status = 500, body = JObj [(''success'', JBool False), (''error'', JStr (errorMessage err))]\<rparr>"
  by (simp add: server_error_def Response_json_def)

lemma GET_doh_valid:
  assumes "q_domain q = Some domain" "domain \<noteq> []" "q_type q = Some type" "type \<in> set validTypes"
  shows "GET_doh rt q =
     (case resolveFn rt (resolver_param q) domain type (dnssec_flag q) of
        Inl err \<Rightarrow> server_error err
      | Inr ret \<Rightarrow>
          Response_json
            (VObj ([(''success'', VBool True), (''domain'', VStr domain),
                    (''recordType'', VStr type), (''resolver'', VStr (resolver_param q)),
                    (''records'', (case ret of DoH res \<Rightarrow> VArr (records res) | Other \<Rightarrow> VUndefined)),
                    (''queryTime'', VNum (Num (Math_round (endTime rt - startTime rt))))] @
                   (case (case ret of DoH res \<Rightarrow> dnssec res | Other \<Rightarrow> None) of
                      None \<Rightarrow> []
                    | Some d \<Rightarrow> [(''dnssec'', DnssecInfo_value d)])))
            200)"
  using assms valid_type_not_empty [OF assms(4)]
  by (simp add: GET_doh_def Let_def split: sum.splits returned.splits)

lemma GET_system_valid:
  assumes "q_domain q = Some domain" "domain \<noteq> []" "q_type q = Some type" "type \<in> set validTypes"
  shows "GET_system rt q =
     (case resolveDns rt domain type of
        Inl err \<Rightarrow> server_error err
      | Inr recs \<Rightarrow>
          Response_json
            (VObj [(''success'', VBool True), (''domain'', VStr domain),
                   (''recordType'', VStr type), (''records'', VArr recs),
                   (''queryTime'', VNum (Num (Math_round (endTime rt - startTime rt))))])
            200)"
  using assms valid_type_not_empty [OF assms(4)]
  by (simp add: GET_system_def Let_def split: sum.splits)

lemma GET_doh_not_400:
  assumes "q_domain q = Some domain" "domain \<noteq> []" "q_type q = Some type" "type \<in> set validTypes"
  shows "status (GET_doh rt q) \<noteq> 400"
  by (simp add: GET_doh_valid [OF assms] server_error_def Response_json_def split: sum.splits)

lemma GET_system_not_400:
  assumes "q_domain q = Some domain" "domain \<noteq> []" "q_type q = Some type" "type \<in> set validTypes"
  shows "status (GET_system rt q) \<noteq> 400"
  by (simp add: GET_system_valid [OF assms] server_error_def Response_json_def split: sum.splits)

lemma GET_doh_invalid:
  assumes "\<not> (\<exists>domain type. q_domain q = Some domain \<and> domain \<noteq> [] \<and> q_type q = Some type \<and>
             type \<in> set validTypes)"
  shows "\<exists>message. GET_doh rt q = bad_request message"
  using assms
  by (auto simp: GET_doh_def Let_def split: option.splits)

lemma GET_system_invalid:
  assumes "\<not> (\<exists>domain type. q_domain q = Some domain \<and> domain \<noteq> [] \<and> q_type q = Some type \<and>
             type \<in> set validTypes)"
  shows "\<exists>message. GET_system rt q = bad_request message"
  using assms
  by (auto simp: GET_system_def Let_def split: option.splits)

text \<open>
  On the path through an adapter, a successful response of the DoH route carries the
  \<open>dnssec\<close> field exactly when \<open>dnssec=true\<close> was asked for, with \<open>enabled = true\<close>.
\<close>

lemma adapter_path_dnssec:
  assumes "q_domain q = Some domain" "domain \<noteq> []" "q_type q = Some type" "type \<in> set validTypes"
    "map_of (Object_prototype rt) (resolver_param q) = None"
    "status (GET_doh rt q) = 200"
  shows "\<exists>recs v. body (GET_doh rt q) =
      JObj ([(''success'', JBool True), (''domain'', JStr domain), (''recordType'', JStr type),
             (''resolver'', JStr (resolver_param q)), (''records'', JArr recs),
             (''queryTime'', JNum (Math_round (endTime rt - startTime rt)))] @
            (if dnssec_flag q
             then [(''dnssec'', JObj [(''validated'', JBool v), (''enabled'', JBool True)])]
             else []))"
proof -
  obtain name adapter where a: "(name, adapter) \<in> set (resolvers rt)"
    and f: "resolveFn rt (resolver_param q) = (\<lambda>domain type dv. map_sum id DoH (adapter domain type dv))"
    using resolveFn_adapter [OF assms(5)] by blast
  show ?thesis
  proof (cases "adapter domain type (dnssec_flag q)")
    case (Inl err)
    with assms(6) show ?thesis
      by (simp add: GET_doh_valid [OF assms(1-4)] f server_error_def Response_json_def)
  next
    case (Inr res)
    from adapter_dnssec [OF a Inr] Inr show ?thesis
      by (cases "dnssec_flag q")
         (auto simp: GET_doh_valid [OF assms(1-4)] f Response_json_def DnssecInfo_value_def)
  qed
qed

section \<open>A provider status other than zero\<close>

text \<open>
  C2. The resolver name selects an adapter (it is no member of \<open>Object.prototype\<close>, for
  which no request is sent) and the provider's response has a \<open>Status\<close> other than 0. Then
  the resolve function fails with the message of the fixed table for the codes 1 to 5 and
  with "DNS error: " followed by the text of the Number for any other, and the handler
  answers 500 with that message as its \<open>error\<close>. For an integer code of magnitude below
  \<open>2 ^ 53\<close> the text of the Number is its decimal numeral: a minus sign when it is negative,
  then the digits that spell its magnitude, the first of them not a zero.
\<close>

theorem status_failure:
  assumes "q_domain q = Some domain" "domain \<noteq> []" "q_type q = Some type" "type \<in> set validTypes"
    "map_of (Object_prototype rt) (resolver_param q) = None"
    "\<And>req. fetch rt req = Resolved r" "response_ok r" "response_json r = Inr data"
    "Status data \<noteq> 0"
  shows "(let message =
            (if Status data = 1 then ''Format error''
             else if Status data = 2 then ''Server failure''
             else if Status data = 3 then ''Non-existent domain''
             else if Status data = 4 then ''Not implemented''
             else if Status data = 5 then ''Query refused''
             else ''DNS error: '' @ Number_toString rt (Status data))
          in resolveFn rt (resolver_param q) domain type (dnssec_flag q) = Inl (Error message)
             \<and> GET_doh rt q =
                 \<lparr>status = 500,
                  body = JObj [(''success'', JBool False), (''error'', JStr message)]\<rparr>)
       \<and> (\<forall>code. Status data = of_int code \<and> \<bar>code\<bar> < 2 ^ 53 \<longrightarrow>
            (\<exists>ds. Number_toString rt (Status data) = (if code < 0 then ''-'' else []) @ ds
                  \<and> ds \<noteq> [] \<and> list_all is_digit ds \<and> int (decimal ds) = \<bar>code\<bar>
                  \<and> hd ds \<noteq> CHR ''0''))"
proof -
  obtain name adapter where a: "(name, adapter) \<in> set (resolvers rt)"
    and f: "resolveFn rt (resolver_param q) = (\<lambda>domain type dv. map_sum id DoH (adapter domain type dv))"
    using resolveFn_adapter [OF assms(5)] by blast
  have "adapter domain type (dnssec_flag q) = Inl (Error (status_error_message rt (Status data)))"
    using adapter_result [OF a assms(4) assms(6-8)] assms(9) by simp
  then have res: "resolveFn rt (resolver_param q) domain type (dnssec_flag q) =
      Inl (Error (status_error_message rt (Status data)))"
    by (simp add: f)
  have first: "let message =
            (if Status data = 1 then ''Format error''
             else if Status data = 2 then ''Server failure''
             else if Status data = 3 then ''Non-existent domain''
             else if Status data = 4 then ''Not implemented''
             else if Status data = 5 then ''Query refused''
             else ''DNS error: '' @ Number_toString rt (Status data))
          in resolveFn rt (resolver_param q) domain type (dnssec_flag q) = Inl (Error message)
             \<and> GET_doh rt q =
                 \<lparr>status = 500,
                  body = JObj [(''success'', JBool False), (''error'', JStr message)]\<rparr>"
    unfolding Let_def
    by (simp only: GET_doh_valid [OF assms(1-4)] res status_error_message_table [symmetric])
       (simp add: server_error_def Response_json_def errorMessage_def)
  have second: "\<exists>ds. Number_toString rt (Status data) = (if code < 0 then ''-'' else []) @ ds
                  \<and> ds \<noteq> [] \<and> list_all is_digit ds \<and> int (decimal ds) = \<bar>code\<bar>
                  \<and> hd ds \<noteq> CHR ''0''"
    if c: "Status data = of_int code" "\<bar>code\<bar> < 2 ^ 53" for code
  proof -
    from c assms(9) have nz: "code \<noteq> 0" by auto
    obtain ds where ds: "show_int code = (if code < 0 then ''-'' else []) @ ds" "ds \<noteq> []"
      "list_all is_digit ds" "int (decimal ds) = \<bar>code\<bar>" "hd ds = CHR ''0'' \<longrightarrow> code = 0"
      using show_int_decimal [of code] by blast
    from ds nz show ?thesis
      by (intro exI [of _ ds]) (simp add: c(1) Number_toString_integer [OF c(2)])
  qed
  from first second show ?thesis by blast
qed

text \<open>
  Status 3 through the Google adapter gives "Non-existent domain", and status 9, outside
  the table, gives "DNS error: 9".
\<close>

theorem status_failure_witness:
  "GET_doh
     \<lparr>fetch = (\<lambda>req. Resolved
        \<lparr>response_ok = True, response_statusText = ''OK'',
         response_json = Inr \<lparr>Status = 3, AD = None, CD = None, Answer = None, Authority = None\<rparr>\<rparr>),
      resolveDns = (\<lambda>domain type. Inr []), startTime = 0, endTime = 1,
      TypeError_message = (\<lambda>member. []), Number_text = (\<lambda>x. [])\<rparr>
     \<lparr>q_domain = Some ''nx.example.com'', q_type = Some ''A'', q_resolver = Some ''google'',
      q_dnssec = Some ''true''\<rparr> =
   \<lparr>status = 500,
    body = JObj [(''success'', JBool False), (''error'', JStr ''Non-existent domain'')]\<rparr>
   \<and> GET_doh
     \<lparr>fetch = (\<lambda>req. Resolved
        \<lparr>response_ok = True, response_statusText = ''OK'',
         response_json = Inr \<lparr>Status = 9, AD = None, CD = None, Answer = None, Authority = None\<rparr>\<rparr>),
      resolveDns = (\<lambda>domain type. Inr []), startTime = 0, endTime = 1,
      TypeError_message = (\<lambda>member. []), Number_text = (\<lambda>x. [])\<rparr>
     \<lparr>q_domain = Some ''example.com'', q_type = Some ''A'', q_resolver = Some ''quad9'',
      q_dnssec = None\<rparr> =
   \<lparr>status = 500,
    body = JObj [(''success'', JBool False), (''error'', JStr ''DNS error: 9'')]\<rparr>"
proof -
  let ?d3 = "\<lparr>Status = 3, AD = None, CD = None, Answer = None, Authority = None\<rparr>"
  let ?r3 = "\<lparr>response_ok = True, response_statusText = ''OK'', response_json = Inr ?d3\<rparr>"
  let ?rt3 = "\<lparr>fetch = (\<lambda>req. Resolved ?r3), resolveDns = (\<lambda>domain type. Inr []),
      startTime = 0, endTime = 1, TypeError_message = (\<lambda>member. []), Number_text = (\<lambda>x. [])\<rparr>"
  let ?q3 = "\<lparr>q_domain = Some ''nx.example.com'', q_type = Some ''A'', q_resolver = Some ''google'',
      q_dnssec = Some ''true''\<rparr>"
  let ?d9 = "\<lparr>Status = 9, AD = None, CD = None, Answer = None, Authority = None\<rparr>"
  let ?r9 = "\<lparr>response_ok = True, response_statusText = ''OK'', response_json = Inr ?d9\<rparr>"
  let ?rt9 = "\<lparr>fetch = (\<lambda>req. Resolved ?r9), resolveDns = (\<lambda>domain type. Inr []),
      startTime = 0, endTime = 1, TypeError_message = (\<lambda>member. []), Number_text = (\<lambda>x. [])\<rparr>"
  let ?q9 = "\<lparr>q_domain = Some ''example.com'', q_type = Some ''A'', q_resolver = Some ''quad9'',
      q_dnssec = None\<rparr>"
  have p3: "map_of (Object_prototype ?rt3) (resolver_param ?q3) = None"
    by (simp add: Object_prototype_def resolver_param_def)
  have p9: "map_of (Object_prototype ?rt9) (resolver_param ?q9) = None"
    by (simp add: Object_prototype_def resolver_param_def)
  have t3: "GET_doh ?rt3 ?q3 =
      \<lparr>status = 500,
       body = JObj [(''success'', JBool False), (''error'', JStr ''Non-existent domain'')]\<rparr>"
    using status_failure [where q = ?q3 and rt = ?rt3 and r = ?r3 and data = ?d3
        and domain = "''nx.example.com''" and type = "''A''", OF _ _ _ _ p3]
    by (simp add: validTypes_def Let_def)
  have t9: "GET_doh ?rt9 ?q9 =
      \<lparr>status = 500,
       body = JObj [(''success'', JBool False), (''error'', JStr ''DNS error: 9'')]\<rparr>"
    using status_failure [where q = ?q9 and rt = ?rt9 and r = ?r9 and data = ?d9
        and domain = "''example.com''" and type = "''A''", OF _ _ _ _ p9]
    by (simp add: validTypes_def Let_def Number_toString_def show_int_def show_nat.simps)
  from t3 t9 show ?thesis by (rule conjI)
qed

section \<open>Validation of the query\<close>

text \<open>
  C3. In both handlers: without a domain (absent or empty) the answer is 400 "Domain is
  required"; with a domain and without a type (absent or empty), 400 "Record type is
  required"; with both, the type is accepted, that is the answer is not a 400, exactly when
  it is one of the eight registry values, and otherwise the answer is 400 "Invalid record
  type: " followed by the type. The lowercase spellings are not registry values.
\<close>

theorem input_validation:
  assumes "handler = GET_doh rt \<or> handler = GET_system rt"
  shows "(q_domain q = None \<or> q_domain q = Some [] \<longrightarrow>
            handler q = \<lparr>status = 400,
                         body = JObj [(''success'', JBool False), (''error'', JStr ''Domain is required'')]\<rparr>)
       \<and> (\<forall>domain. q_domain q = Some domain \<and> domain \<noteq> [] \<longrightarrow>
            (q_type q = None \<or> q_type q = Some [] \<longrightarrow>
               handler q = \<lparr>status = 400,
                            body = JObj [(''success'', JBool False),
                                         (''error'', JStr ''Record type is required'')]\<rparr>)
          \<and> (\<forall>type. q_type q = Some type \<and> type \<noteq> [] \<longrightarrow>
               (type \<in> {''A'', ''AAAA'', ''CNAME'', ''MX'', ''NS'', ''TXT'', ''SOA'', ''PTR''} \<longrightarrow>
                  status (handler q) \<noteq> 400)
             \<and> (type \<notin> {''A'', ''AAAA'', ''CNAME'', ''MX'', ''NS'', ''TXT'', ''SOA'', ''PTR''} \<longrightarrow>
                  handler q = \<lparr>status = 400,
                               body = JObj [(''success'', JBool False),
                                            (''error'', JStr (''Invalid record type: '' @ type))]\<rparr>)))
       \<and> set validTypes = {''A'', ''AAAA'', ''CNAME'', ''MX'', ''NS'', ''TXT'', ''SOA'', ''PTR''}
       \<and> set [''a'', ''aaaa'', ''cname'', ''mx'', ''ns'', ''txt'', ''soa'', ''ptr''] \<inter> set validTypes = {}"
proof -
  have v: "set validTypes = {''A'', ''AAAA'', ''CNAME'', ''MX'', ''NS'', ''TXT'', ''SOA'', ''PTR''}"
    by (simp add: validTypes_def)
  have low: "set [''a'', ''aaaa'', ''cname'', ''mx'', ''ns'', ''txt'', ''soa'', ''ptr''] \<inter> set validTypes = {}"
    by (simp add: validTypes_def)
  have d: "q_domain q = None \<or> q_domain q = Some [] \<Longrightarrow> handler q = bad_request ''Domain is required''"
    using assms by (auto simp: GET_doh_def GET_system_def Let_def)
  have t: "handler q = bad_request ''Record type is required''"
    if "q_domain q = Some domain" "domain \<noteq> []" "q_type q = None \<or> q_type q = Some []" for domain
    using assms that by (auto simp: GET_doh_def GET_system_def Let_def)
  have i: "handler q = bad_request (''Invalid record type: '' @ type)"
    if "q_domain q = Some domain" "domain \<noteq> []" "q_type q = Some type" "type \<noteq> []"
      "type \<notin> set validTypes" for domain type
    using assms that by (auto simp: GET_doh_def GET_system_def Let_def)
  have ok: "status (handler q) \<noteq> 400"
    if "q_domain q = Some domain" "domain \<noteq> []" "q_type q = Some type" "type \<in> set validTypes"
    for domain type
    using assms GET_doh_not_400 [OF that] GET_system_not_400 [OF that] by auto
  show ?thesis
    unfolding v [symmetric] bad_request_eq [symmetric]
    using d t i ok low by (intro conjI allI impI) (blast | simp)+
qed

text \<open>
  The lowercase "mx" on the system route.
\<close>

theorem input_validation_witness:
  "GET_system
     \<lparr>fetch = (\<lambda>req. Rejected NotAnError), resolveDns = (\<lambda>domain type. Inr []),
      startTime = 0, endTime = 1, TypeError_message = (\<lambda>member. []),
      Number_text = (\<lambda>x. [])\<rparr>
     \<lparr>q_domain = Some ''example.com'', q_type = Some ''mx'', q_resolver = None, q_dnssec = None\<rparr> =
   \<lparr>status = 400,
    body = JObj [(''success'', JBool False), (''error'', JStr ''Invalid record type: mx'')]\<rparr>"
proof -
  let ?rt = "\<lparr>fetch = (\<lambda>req. Rejected NotAnError), resolveDns = (\<lambda>domain type. Inr []),
      startTime = 0, endTime = 1, TypeError_message = (\<lambda>member. []),
      Number_text = (\<lambda>x. [])\<rparr>"
  let ?q = "\<lparr>q_domain = Some ''example.com'', q_type = Some ''mx'', q_resolver = None,
      q_dnssec = None\<rparr>"
  from input_validation [where handler = "GET_system ?rt" and rt = ?rt and q = ?q]
  show ?thesis by simp
qed

section \<open>Resolver names inherited from Object.prototype\<close>

text \<open>
  C7, at the resolver name "toString". \<open>resolvers["toString"]\<close> is the function inherited
  from \<open>Object.prototype\<close>, not \<open>undefined\<close>, so \<open>??\<close> does not fall back to the Google
  adapter: no request is sent, and the handler answers 200 with a body that has no
  \<open>records\<close>.
\<close>

theorem inherited_name_not_google:
  "resolveFn rt ''toString'' ''example.com'' ''A'' False = Inr Other
   \<and> GET_doh rt
       \<lparr>q_domain = Some ''example.com'', q_type = Some ''A'', q_resolver = Some ''toString'',
        q_dnssec = None\<rparr> =
     \<lparr>status = 200,
      body = JObj [(''success'', JBool True), (''domain'', JStr ''example.com''),
                   (''recordType'', JStr ''A''), (''resolver'', JStr ''toString''),
                   (''queryTime'', JNum (Math_round (endTime rt - startTime rt)))]\<rparr>"
  by (simp add: GET_doh_def resolver_param_def dnssec_flag_def validTypes_def resolveFn_def
        resolvers_get_def resolvers_def Object_prototype_def Response_json_def)

text \<open>
  C4, at the same resolver name with \<open>dnssec=true\<close>: the successful response has no
  \<open>dnssec\<close> field although validation was asked for.
\<close>

theorem inherited_name_drops_dnssec:
  "GET_doh rt
     \<lparr>q_domain = Some ''example.com'', q_type = Some ''A'', q_resolver = Some ''toString'',
      q_dnssec = Some ''true''\<rparr> =
   \<lparr>status = 200,
    body = JObj [(''success'', JBool True), (''domain'', JStr ''example.com''),
                 (''recordType'', JStr ''A''), (''resolver'', JStr ''toString''),
                 (''queryTime'', JNum (Math_round (endTime rt - startTime rt)))]\<rparr>"
  by (simp add: GET_doh_def resolver_param_def dnssec_flag_def validTypes_def resolveFn_def
        resolvers_get_def resolvers_def Object_prototype_def Response_json_def)

section \<open>The shape of the responses\<close>

text \<open>
  C9, as the code has it. On both routes a request without a domain, without a type, or
  with a type outside the registry gets status 400, and a lookup whose resolver threw gets
  status 500 with the thrown message, each with the body \<open>{success: false, error}\<close>. A
  successful lookup of the system route gets status 200 and a body of exactly the fields
  success, domain, recordType, records and queryTime: no resolver field and no dnssec
  field. A successful lookup of the DoH route that comes from an adapter (\<open>DoH res\<close>) gets
  status 200 and a body of the fields success, domain, recordType, resolver, records and
  queryTime, followed by dnssec, with \<open>enabled = true\<close>, when the adapter returned the info.
\<close>

theorem response_shapes:
  "(\<not> (\<exists>domain type. q_domain q = Some domain \<and> domain \<noteq> [] \<and> q_type q = Some type \<and>
          type \<in> set validTypes) \<longrightarrow>
      (\<exists>message. GET_system rt q =
         \<lparr>status = 400, body = JObj [(''success'', JBool False), (''error'', JStr message)]\<rparr>)
    \<and> (\<exists>message. GET_doh rt q =
         \<lparr>status = 400, body = JObj [(''success'', JBool False), (''error'', JStr message)]\<rparr>))
   \<and> (\<forall>domain type. q_domain q = Some domain \<and> domain \<noteq> [] \<and> q_type q = Some type \<and>
          type \<in> set validTypes \<longrightarrow>
      (\<forall>err. resolveDns rt domain type = Inl err \<longrightarrow>
         GET_system rt q =
           \<lparr>status = 500,
            body = JObj [(''success'', JBool False), (''error'', JStr (errorMessage err))]\<rparr>)
    \<and> (\<forall>recs. resolveDns rt domain type = Inr recs \<longrightarrow>
         GET_system rt q =
           \<lparr>status = 200,
            body = JObj [(''success'', JBool True), (''domain'', JStr domain),
                         (''recordType'', JStr type),
                         (''records'', JArr (stringify_elements recs)),
                         (''queryTime'', JNum (Math_round (endTime rt - startTime rt)))]\<rparr>)
    \<and> (\<forall>err. resolveFn rt (resolver_param q) domain type (dnssec_flag q) = Inl err \<longrightarrow>
         GET_doh rt q =
           \<lparr>status = 500,
            body = JObj [(''success'', JBool False), (''error'', JStr (errorMessage err))]\<rparr>)
    \<and> (\<forall>res. resolveFn rt (resolver_param q) domain type (dnssec_flag q) = Inr (DoH res) \<longrightarrow>
         GET_doh rt q =
           \<lparr>status = 200,
            body = JObj ([(''success'', JBool True), (''domain'', JStr domain),
                          (''recordType'', JStr type),
                          (''resolver'', JStr (resolver_param q)),
                          (''records'', JArr (stringify_elements (records res))),
                          (''queryTime'', JNum (Math_round (endTime rt - startTime rt)))] @
                         (case dnssec res of
                            None \<Rightarrow> []
                          | Some info \<Rightarrow>
                              [(''dnssec'', JObj [(''validated'', JBool (validated info)),
                                                 (''enabled'', JBool True)])]))\<rparr>))"
proof (intro conjI impI allI)
  assume n: "\<not> (\<exists>domain type. q_domain q = Some domain \<and> domain \<noteq> [] \<and> q_type q = Some type \<and>
          type \<in> set validTypes)"
  from GET_system_invalid [OF n] show "\<exists>message. GET_system rt q =
         \<lparr>status = 400, body = JObj [(''success'', JBool False), (''error'', JStr message)]\<rparr>"
    by (simp add: bad_request_eq)
  from GET_doh_invalid [OF n] show "\<exists>message. GET_doh rt q =
         \<lparr>status = 400, body = JObj [(''success'', JBool False), (''error'', JStr message)]\<rparr>"
    by (simp add: bad_request_eq)
next
  fix domain type err
  assume "q_domain q = Some domain \<and> domain \<noteq> [] \<and> q_type q = Some type \<and> type \<in> set validTypes"
  then have v: "q_domain q = Some domain" "domain \<noteq> []" "q_type q = Some type"
    "type \<in> set validTypes" by simp_all
  assume "resolveDns rt domain type = Inl err"
  then show "GET_system rt q =
           \<lparr>status = 500,
            body = JObj [(''success'', JBool False), (''error'', JStr (errorMessage err))]\<rparr>"
    by (simp add: GET_system_valid [OF v] server_error_eq)
next
  fix domain type recs
  assume "q_domain q = Some domain \<and> domain \<noteq> [] \<and> q_type q = Some type \<and> type \<in> set validTypes"
  then have v: "q_domain q = Some domain" "domain \<noteq> []" "q_type q = Some type"
    "type \<in> set validTypes" by simp_all
  assume "resolveDns rt domain type = Inr recs"
  then show "GET_system rt q =
           \<lparr>status = 200,
            body = JObj [(''success'', JBool True), (''domain'', JStr domain),
                         (''recordType'', JStr type),
                         (''records'', JArr (stringify_elements recs)),
                         (''queryTime'', JNum (Math_round (endTime rt - startTime rt)))]\<rparr>"
    by (simp add: GET_system_valid [OF v] Response_json_def)
next
  fix domain type err
  assume "q_domain q = Some domain \<and> domain \<noteq> [] \<and> q_type q = Some type \<and> type \<in> set validTypes"
  then have v: "q_domain q = Some domain" "domain \<noteq> []" "q_type q = Some type"
    "type \<in> set validTypes" by simp_all
  assume "resolveFn rt (resolver_param q) domain type (dnssec_flag q) = Inl err"
  then show "GET_doh rt q =
           \<lparr>status = 500,
            body = JObj [(''success'', JBool False), (''error'', JStr (errorMessage err))]\<rparr>"
    by (simp add: GET_doh_valid [OF v] server_error_eq)
next
  fix domain type res
  assume "q_domain q = Some domain \<and> domain \<noteq> [] \<and> q_type q = Some type \<and> type \<in> set validTypes"
  then have v: "q_domain q = Some domain" "domain \<noteq> []" "q_type q = Some type"
    "type \<in> set validTypes" by simp_all
  assume r: "resolveFn rt (resolver_param q) domain type (dnssec_flag q) = Inr (DoH res)"
  obtain name adapter where "(name, adapter) \<in> set (resolvers rt)"
    "adapter domain type (dnssec_flag q) = Inr res"
    using resolveFn_DoH [OF r] by blast
  then have e: "dnssec res = None \<or> (\<exists>v. dnssec res = Some \<lparr>validated = v, enabled = True\<rparr>)"
    using adapter_dnssec by blast
  from e show "GET_doh rt q =
           \<lparr>status = 200,
            body = JObj ([(''success'', JBool True), (''domain'', JStr domain),
                          (''recordType'', JStr type),
                          (''resolver'', JStr (resolver_param q)),
                          (''records'', JArr (stringify_elements (records res))),
                          (''queryTime'', JNum (Math_round (endTime rt - startTime rt)))] @
                         (case dnssec res of
                            None \<Rightarrow> []
                          | Some info \<Rightarrow>
                              [(''dnssec'', JObj [(''validated'', JBool (validated info)),
                                                 (''enabled'', JBool True)])]))\<rparr>"
  proof
    assume "dnssec res = None"
    then show ?thesis
      by (simp add: GET_doh_valid [OF v] r Response_json_def)
  next
    assume "\<exists>v. dnssec res = Some \<lparr>validated = v, enabled = True\<rparr>"
    then obtain v' where "dnssec res = Some \<lparr>validated = v', enabled = True\<rparr>" ..
    then show ?thesis
      by (simp add: GET_doh_valid [OF v] r Response_json_def DnssecInfo_value_def)
  qed
qed

text \<open>
  A successful lookup through the Cloudflare adapter with validation asked for, and a
  lookup on the DoH route under the inherited name \<open>valueOf\<close>, whose call throws.
\<close>

theorem response_shapes_witness:
  "GET_doh
     \<lparr>fetch = (\<lambda>req. Resolved
        \<lparr>response_ok = True, response_statusText = ''OK'',
         response_json = Inr \<lparr>Status = 0, AD = Some True, CD = None,
           Answer = Some [\<lparr>ans_name = ''example.com.'', ans_type = 1, ans_TTL = 60,
                            ans_data = ''93.184.216.34''\<rparr>],
           Authority = None\<rparr>\<rparr>),
      resolveDns = (\<lambda>domain type. Inr []), startTime = 0, endTime = 1,
      TypeError_message = (\<lambda>member. ''not an object''), Number_text = (\<lambda>x. [])\<rparr>
     \<lparr>q_domain = Some ''example.com'', q_type = Some ''A'', q_resolver = Some ''cloudflare'',
      q_dnssec = Some ''true''\<rparr> =
   \<lparr>status = 200,
    body = JObj [(''success'', JBool True), (''domain'', JStr ''example.com''),
                 (''recordType'', JStr ''A''), (''resolver'', JStr ''cloudflare''),
                 (''records'', JArr [JStr ''93.184.216.34'']), (''queryTime'', JNum 1),
                 (''dnssec'', JObj [(''validated'', JBool True), (''enabled'', JBool True)])]\<rparr>
   \<and> GET_doh
     \<lparr>fetch = (\<lambda>req. Rejected NotAnError),
      resolveDns = (\<lambda>domain type. Inr []), startTime = 0, endTime = 1,
      TypeError_message = (\<lambda>member. ''not an object''), Number_text = (\<lambda>x. [])\<rparr>
     \<lparr>q_domain = Some ''example.com'', q_type = Some ''A'', q_resolver = Some ''valueOf'',
      q_dnssec = None\<rparr> =
   \<lparr>status = 500,
    body = JObj [(''success'', JBool False), (''error'', JStr ''not an object'')]\<rparr>"
proof -
  let ?a = "\<lparr>ans_name = ''example.com.'', ans_type = 1, ans_TTL = 60, ans_data = ''93.184.216.34''\<rparr>"
  let ?data = "\<lparr>Status = 0, AD = Some True, CD = None, Answer = Some [?a], Authority = None\<rparr>"
  let ?rt = "\<lparr>fetch = (\<lambda>req. Resolved
        \<lparr>response_ok = True, response_statusText = ''OK'', response_json = Inr ?data\<rparr>),
      resolveDns = (\<lambda>domain type. Inr []), startTime = 0, endTime = 1,
      TypeError_message = (\<lambda>member. ''not an object''), Number_text = (\<lambda>x. [])\<rparr>"
  let ?q = "\<lparr>q_domain = Some ''example.com'', q_type = Some ''A'', q_resolver = Some ''cloudflare'',
      q_dnssec = Some ''true''\<rparr>"
  let ?res = "\<lparr>records = [VStr ''93.184.216.34''],
      dnssec = Some \<lparr>validated = True, enabled = True\<rparr>\<rparr>"
  let ?rt' = "\<lparr>fetch = (\<lambda>req. Rejected NotAnError),
      resolveDns = (\<lambda>domain type. Inr []), startTime = 0, endTime = 1,
      TypeError_message = (\<lambda>member. ''not an object''), Number_text = (\<lambda>x. [])\<rparr>"
  let ?q' = "\<lparr>q_domain = Some ''example.com'', q_type = Some ''A'', q_resolver = Some ''valueOf'',
      q_dnssec = None\<rparr>"
  have ok: "resolveFn ?rt (resolver_param ?q) ''example.com'' ''A'' (dnssec_flag ?q) = Inr (DoH ?res)"
    by (simp add: resolver_param_def dnssec_flag_def resolveFn_def resolvers_get_def resolvers_def
        resolveWithCloudflareDoH_default_def resolveWithCloudflareDoH_def DNS_TYPE_MAP_def
        parseDoHResponse_def parse_answer_def)
  have thrown: "resolveFn ?rt' (resolver_param ?q') ''example.com'' ''A'' (dnssec_flag ?q') =
      Inl (Error ''not an object'')"
    by (simp add: resolver_param_def dnssec_flag_def resolveFn_def resolvers_get_def resolvers_def
        Object_prototype_def)
  have a: "GET_doh ?rt ?q =
      \<lparr>status = 200,
       body = JObj [(''success'', JBool True), (''domain'', JStr ''example.com''),
                    (''recordType'', JStr ''A''), (''resolver'', JStr ''cloudflare''),
                    (''records'', JArr [JStr ''93.184.216.34'']), (''queryTime'', JNum 1),
                    (''dnssec'', JObj [(''validated'', JBool True), (''enabled'', JBool True)])]\<rparr>"
    using response_shapes [of ?q ?rt] ok
    by (simp add: validTypes_def resolver_param_def Math_round_def)
  have b: "GET_doh ?rt' ?q' =
      \<lparr>status = 500,
       body = JObj [(''success'', JBool False), (''error'', JStr ''not an object'')]\<rparr>"
    using response_shapes [of ?q' ?rt'] thrown
    by (simp add: validTypes_def errorMessage_def)
  from a b show ?thesis by (rule conjI)
qed

text \<open>
  C9 as the specification words it fails on the system route: its successful body has
  no \<open>resolver\<close> field, whatever the \<open>resolver\<close> parameter of the request.
\<close>

theorem system_response_counterexample:
  "GET_system
     \<lparr>fetch = (\<lambda>req. Rejected NotAnError),
      resolveDns = (\<lambda>domain type. Inr [VStr ''93.184.216.34'']), startTime = 0, endTime = 1,
      TypeError_message = (\<lambda>member. []), Number_text = (\<lambda>x. [])\<rparr>
     \<lparr>q_domain = Some ''example.com'', q_type = Some ''A'', q_resolver = Some ''system'',
      q_dnssec = None\<rparr> =
   \<lparr>status = 200,
    body = JObj [(''success'', JBool True), (''domain'', JStr ''example.com''),
                 (''recordType'', JStr ''A''), (''records'', JArr [JStr ''93.184.216.34'']),
                 (''queryTime'', JNum 1)]\<rparr>"
  by (simp add: GET_system_def validTypes_def Response_json_def Math_round_def)

section \<open>The URL fragment\<close>





text \<open>A domain that \<open>parseHash\<close> has read holds no line terminator.\<close>

lemma lazy_group_one_line:
  assumes "lazy_group seen rest = Some found" "list_all (\<lambda>c. \<not> is_line_terminator c) seen"
  shows "list_all (\<lambda>c. \<not> is_line_terminator c) found"
  using assms
proof (induction rest arbitrary: seen)
  case Nil
  then show ?case by (simp split: if_splits)
next
  case (Cons c cs)
  then show ?case by (auto split: if_splits)
qed

lemma parseHash_one_line:
  assumes "parseHash hash = Some (type, domain)"
  shows "list_all (\<lambda>c. \<not> is_line_terminator c) domain"
  using assms lazy_group_one_line [of "[]" _ domain]
  by (auto simp: parseHash_def Let_def split: list.splits if_splits option.splits)



section \<open>MX answers\<close>

lemma takeWhile_leading:
  assumes "list_all P ds" "rest = [] \<or> \<not> P (hd rest)"
  shows "takeWhile P (ds @ rest) = ds"
proof -
  have "takeWhile P rest = []"
    using assms(2) by (cases rest) auto
  with assms(1) show ?thesis
    by (simp add: list_all_iff)
qed

lemma parseInt_string_leading:
  assumes "ds \<noteq> []" "list_all is_digit ds" "decimal ds < 2 ^ 53" "rest = [] \<or> \<not> is_digit (hd rest)"
  shows "parseInt_string (ds @ rest) = Num (int (decimal ds))"
proof -
  obtain c cs where ds: "ds = c # cs" using assms(1) by (cases ds) auto
  have c: "is_digit c" using assms(2) ds by simp
  have tw: "takeWhile is_digit (cs @ rest) = cs"
    using takeWhile_leading [of is_digit cs rest] assms(2,4) ds by simp
  have "to_double (decimal (c # cs)) = Some (decimal (c # cs))"
    using assms(3) ds by (simp add: to_double_exact)
  then show ?thesis
    using c digit_not_whitespace [OF c] digit_not_sign [OF c]
    by (simp add: parseInt_string_def ds tw)
qed

lemma pieces_of_raw:
  "split CHR '' '' raw \<noteq> [] \<and> list_all (\<lambda>p. CHR '' '' \<notin> set p) (split CHR '' '' raw)
   \<and> join '' '' (split CHR '' '' raw) = raw"
  using split_not_Nil [of "CHR '' ''" raw] split_space_free [of "CHR '' ''" raw]
    join_split [of "CHR '' ''" raw]
  by simp

text \<open>
  C5, as the code has it. The raw data is cut at single space characters (U+0020), not at
  white space in general, into one or more pieces that hold no space; every raw data is
  such pieces joined by single spaces. The first piece goes through \<open>parseInt\<close> and is the
  preference: when the piece begins with a run of decimal digits whose value is below
  \<open>2 ^ 53\<close> and the run ends the piece or is followed by a character that is no digit, the
  preference is the integer the run spells. The remaining pieces joined by single spaces
  again (nothing, when the data holds no space) are the exchange, less one trailing dot.
\<close>

theorem mx_pieces:
  assumes "pieces \<noteq> []" "list_all (\<lambda>p. CHR '' '' \<notin> set p) pieces"
  shows "parse_answer ''MX'' (answer\<lparr>ans_data := join '' '' pieces\<rparr>) =
           VObj [(''preference'', VNum (parseInt_string (hd pieces))),
                 (''exchange'', VStr (replace_trailing_dot (join '' '' (tl pieces))))]
       \<and> (\<forall>ds rest. ds \<noteq> [] \<and> list_all is_digit ds \<and> decimal ds < 2 ^ 53 \<and>
                    (rest = [] \<or> \<not> is_digit (hd rest)) \<longrightarrow>
                    parseInt_string (ds @ rest) = Num (int (decimal ds)))
       \<and> (\<forall>raw. split CHR '' '' raw \<noteq> [] \<and>
                 list_all (\<lambda>p. CHR '' '' \<notin> set p) (split CHR '' '' raw) \<and>
                 join '' '' (split CHR '' '' raw) = raw)"
proof -
  obtain p ps where pieces: "pieces = p # ps" using assms(1) by (cases pieces) auto
  have parts: "split CHR '' '' (join '' '' (p # ps)) = p # ps"
    using split_join [OF assms] pieces by simp
  have "parse_answer ''MX'' (answer\<lparr>ans_data := join '' '' pieces\<rparr>) =
           VObj [(''preference'', VNum (parseInt_string (hd pieces))),
                 (''exchange'', VStr (replace_trailing_dot (join '' '' (tl pieces))))]"
    unfolding pieces
    by (simp add: parse_answer_def parts index_def slice1_def parseInt_def Let_def
          del: join.simps)
  then show ?thesis
    using parseInt_string_leading pieces_of_raw by blast
qed

text \<open>The example of the specification: "10 mail.example.com." gives preference 10 and
  exchange "mail.example.com".\<close>

theorem mx_pieces_witness:
  "parse_answer ''MX''
     \<lparr>ans_name = ''example.com.'', ans_type = 15, ans_TTL = 300,
      ans_data = ''10 mail.example.com.''\<rparr> =
   VObj [(''preference'', VNum (Num 10)), (''exchange'', VStr ''mail.example.com'')]"
proof -
  have d: "parseInt_string ''10'' = Num 10"
    by (simp add: number_evals)
  show ?thesis
    using mx_pieces [where pieces = "[''10'', ''mail.example.com.'']"
        and answer = "\<lparr>ans_name = ''example.com.'', ans_type = 15, ans_TTL = 300, ans_data = []\<rparr>"]
    by (simp add: d replace_trailing_dot_def)
qed

text \<open>
  C5 as the specification words it fails on data whose separator is a tab: the
  specification's tokens are "10" and "mail.example.com.", the code finds no space, reads
  the preference off the front of the whole text and leaves the exchange empty.
\<close>

theorem mx_tab_counterexample:
  "parse_answer ''MX''
     \<lparr>ans_name = ''example.com.'', ans_type = 15, ans_TTL = 300,
      ans_data = ''10'' @ [CHR 0x09] @ ''mail.example.com.''\<rparr> =
   VObj [(''preference'', VNum (Num 10)), (''exchange'', VStr [])]
   \<and> spec_parse_MX (''10'' @ [CHR 0x09] @ ''mail.example.com.'') =
   VObj [(''preference'', VNum (Num 10)), (''exchange'', VStr ''mail.example.com'')]"
  by (simp add: parse_answer_def spec_parse_MX_def spec_tokens_def number_evals string_evals)

section \<open>SOA answers\<close>

lemma soa_fields:
  "parse_answer ''SOA'' answer =
     (let parts = split CHR '' '' (ans_data answer);
          text = (\<lambda>i. case index parts i of None \<Rightarrow> [] | Some p \<Rightarrow> replace_trailing_dot p);
          number = (\<lambda>i. case index parts i of
                           None \<Rightarrow> Num 0
                         | Some p \<Rightarrow> if parseInt_string p = NaN then Num 0 else parseInt_string p)
      in VObj [(''mname'', VStr (text 0)), (''rname'', VStr (text 1)),
               (''serial'', VNum (number 2)), (''refresh'', VNum (number 3)),
               (''retry'', VNum (number 4)), (''expire'', VNum (number 5)),
               (''minimum'', VNum (number 6))])"
proof -
  have t: "replace_trailing_dot_or_empty x =
      (case x of None \<Rightarrow> [] | Some p \<Rightarrow> replace_trailing_dot p)" for x
    by (simp add: replace_trailing_dot_or_empty_def split: option.splits)
  have n: "or_zero (parseInt x) =
      (case x of None \<Rightarrow> Num 0
       | Some p \<Rightarrow> if parseInt_string p = NaN then Num 0 else parseInt_string p)" for x
    by (cases x) (simp_all add: parseInt_undefined or_zero_eq, simp add: parseInt_def)
  show ?thesis
    by (simp add: parse_answer_def Let_def t n)
qed

text \<open>
  C6, as the code has it. The raw data is cut at single space characters (U+0020), not at
  white space in general, into one or more pieces that hold no space; every raw data is
  such pieces joined by single spaces. The first seven pieces are in order mname, rname,
  serial, refresh, retry, expire and minimum, and further pieces are ignored. The mname and
  the rname are their piece less one trailing dot, and empty when the piece is missing.
  Each of the five numbers is what \<open>parseInt\<close> reads from its piece, and 0 when the piece is
  missing or \<open>parseInt\<close> reads \<open>NaN\<close>; \<open>parseInt\<close> reads the integer that a leading run of
  decimal digits spells (below \<open>2 ^ 53\<close>) whatever follows the run, so "12abc" is 12.
\<close>

theorem soa_pieces:
  assumes "pieces \<noteq> []" "list_all (\<lambda>p. CHR '' '' \<notin> set p) pieces"
  shows "(let text = (\<lambda>i. case index pieces i of None \<Rightarrow> [] | Some p \<Rightarrow> replace_trailing_dot p);
              number = (\<lambda>i. case index pieces i of
                               None \<Rightarrow> Num 0
                             | Some p \<Rightarrow> if parseInt_string p = NaN then Num 0
                                         else parseInt_string p)
          in parse_answer ''SOA'' (answer\<lparr>ans_data := join '' '' pieces\<rparr>) =
               VObj [(''mname'', VStr (text 0)), (''rname'', VStr (text 1)),
                     (''serial'', VNum (number 2)), (''refresh'', VNum (number 3)),
                     (''retry'', VNum (number 4)), (''expire'', VNum (number 5)),
                     (''minimum'', VNum (number 6))])
       \<and> (\<forall>ds rest. ds \<noteq> [] \<and> list_all is_digit ds \<and> decimal ds < 2 ^ 53 \<and>
                    (rest = [] \<or> \<not> is_digit (hd rest)) \<longrightarrow>
                    parseInt_string (ds @ rest) = Num (int (decimal ds)))
       \<and> (\<forall>raw. split CHR '' '' raw \<noteq> [] \<and>
                 list_all (\<lambda>p. CHR '' '' \<notin> set p) (split CHR '' '' raw) \<and>
                 join '' '' (split CHR '' '' raw) = raw)"
proof -
  have parts: "split CHR '' '' (join '' '' pieces) = pieces"
    using split_join [OF assms] by simp
  have "let text = (\<lambda>i. case index pieces i of None \<Rightarrow> [] | Some p \<Rightarrow> replace_trailing_dot p);
              number = (\<lambda>i. case index pieces i of
                               None \<Rightarrow> Num 0
                             | Some p \<Rightarrow> if parseInt_string p = NaN then Num 0
                                         else parseInt_string p)
          in parse_answer ''SOA'' (answer\<lparr>ans_data := join '' '' pieces\<rparr>) =
               VObj [(''mname'', VStr (text 0)), (''rname'', VStr (text 1)),
                     (''serial'', VNum (number 2)), (''refresh'', VNum (number 3)),
                     (''retry'', VNum (number 4)), (''expire'', VNum (number 5)),
                     (''minimum'', VNum (number 6))]"
    by (simp add: soa_fields parts Let_def del: join.simps)
  then show ?thesis
    using parseInt_string_leading pieces_of_raw by blast
qed

text \<open>The example of the specification.\<close>

theorem soa_pieces_witness:
  "parse_answer ''SOA''
     \<lparr>ans_name = ''example.com.'', ans_type = 6, ans_TTL = 300,
      ans_data = ''ns1.example.com. admin.example.com. 2024010101 3600 600 604800 60''\<rparr> =
   VObj [(''mname'', VStr ''ns1.example.com''), (''rname'', VStr ''admin.example.com''),
         (''serial'', VNum (Num 2024010101)), (''refresh'', VNum (Num 3600)),
         (''retry'', VNum (Num 600)), (''expire'', VNum (Num 604800)),
         (''minimum'', VNum (Num 60))]"
proof -
  have d: "parseInt_string ''2024010101'' = Num 2024010101" "parseInt_string ''3600'' = Num 3600"
    "parseInt_string ''600'' = Num 600" "parseInt_string ''604800'' = Num 604800"
    "parseInt_string ''60'' = Num 60"
    by (simp_all add: number_evals)
  show ?thesis
    using soa_pieces [where pieces = "[''ns1.example.com.'', ''admin.example.com.'', ''2024010101'',
          ''3600'', ''600'', ''604800'', ''60'']"
        and answer = "\<lparr>ans_name = ''example.com.'', ans_type = 6, ans_TTL = 300, ans_data = []\<rparr>"]
    by (simp add: d index_def replace_trailing_dot_def Let_def)
qed

text \<open>
  C6 as the specification words it fails twice. On the seven fields of the example
  separated by tabs the code finds no space: the whole text is the mname, the rname is
  empty and the five numbers are 0. And a serial "12abc", which is not numeric, is read as
  12 and not defaulted to 0.
\<close>

theorem soa_tab_counterexample:
  "parse_answer ''SOA''
     \<lparr>ans_name = ''example.com.'', ans_type = 6, ans_TTL = 300,
      ans_data = ''ns1.example.com.'' @ [CHR 0x09] @
        ''admin.example.com.'' @ [CHR 0x09] @
        ''2024010101'' @ [CHR 0x09] @
        ''3600'' @ [CHR 0x09] @
        ''600'' @ [CHR 0x09] @
        ''604800'' @ [CHR 0x09] @
        ''60''\<rparr> =
   VObj [(''mname'', VStr (''ns1.example.com.'' @ [CHR 0x09] @
        ''admin.example.com.'' @ [CHR 0x09] @
        ''2024010101'' @ [CHR 0x09] @
        ''3600'' @ [CHR 0x09] @
        ''600'' @ [CHR 0x09] @
        ''604800'' @ [CHR 0x09] @
        ''60'')),
         (''rname'', VStr []),
         (''serial'', VNum (Num 0)), (''refresh'', VNum (Num 0)),
         (''retry'', VNum (Num 0)), (''expire'', VNum (Num 0)),
         (''minimum'', VNum (Num 0))]
   \<and> spec_parse_SOA (''ns1.example.com.'' @ [CHR 0x09] @
        ''admin.example.com.'' @ [CHR 0x09] @
        ''2024010101'' @ [CHR 0x09] @
        ''3600'' @ [CHR 0x09] @
        ''600'' @ [CHR 0x09] @
        ''604800'' @ [CHR 0x09] @
        ''60'') =
   VObj [(''mname'', VStr ''ns1.example.com''), (''rname'', VStr ''admin.example.com''),
         (''serial'', VNum (Num 2024010101)), (''refresh'', VNum (Num 3600)),
         (''retry'', VNum (Num 600)), (''expire'', VNum (Num 604800)),
         (''minimum'', VNum (Num 60))]
   \<and> parse_answer ''SOA''
     \<lparr>ans_name = ''example.com.'', ans_type = 6, ans_TTL = 300,
      ans_data = ''ns1.example.com. admin.example.com. 12abc 3600 600 604800 60''\<rparr> =
   VObj [(''mname'', VStr ''ns1.example.com''), (''rname'', VStr ''admin.example.com''),
         (''serial'', VNum (Num 12)), (''refresh'', VNum (Num 3600)),
         (''retry'', VNum (Num 600)), (''expire'', VNum (Num 604800)),
         (''minimum'', VNum (Num 60))]
   \<and> spec_parse_SOA ''ns1.example.com. admin.example.com. 12abc 3600 600 604800 60'' =
   VObj [(''mname'', VStr ''ns1.example.com''), (''rname'', VStr ''admin.example.com''),
         (''serial'', VNum (Num 0)), (''refresh'', VNum (Num 3600)),
         (''retry'', VNum (Num 600)), (''expire'', VNum (Num 604800)),
         (''minimum'', VNum (Num 60))]"
  by (simp add: parse_answer_def spec_parse_SOA_def spec_tokens_def spec_number_def
        number_evals string_evals)




end
